theory Spec2Isabelle
  imports Complex_Main "HOL-Library.Word" "HOL-Library.Sublist"
begin

unbundle bit_operations_syntax

section \<open>The live-audio hook of \<^verbatim>\<open>src/hooks/useGeminiLive.ts\<close>\<close>

text \<open>
  The embedding follows the hook function by function. A JavaScript string is the list of
  its UTF-16 code units; a \<^verbatim>\<open>Float32Array\<close> is a list of reals (every finite float is a
  rational, and the codec only multiplies and divides by the power of two 32768, which is
  exact on them; NaN and the infinities are not represented); an \<^verbatim>\<open>Int16Array\<close> is a
  list of 16-bit words read as two's complement; a \<^verbatim>\<open>Uint8Array\<close> is a list of bytes.
  The base64 text produced by \<^verbatim>\<open>btoa\<close> and consumed by \<^verbatim>\<open>atob\<close> is represented by the
  bytes it stands for. Times of the audio clock are reals.
\<close>

subsection \<open>Strings\<close>

type_synonym byte = "8 word"
type_synonym js_string = "16 word list"

definition utf16 :: "string \<Rightarrow> js_string" where
  "utf16 s = map of_char s"

text \<open>\<^verbatim>\<open>String.prototype.includes\<close>: the argument occurs as a contiguous run.\<close>

fun str_includes :: "js_string \<Rightarrow> js_string \<Rightarrow> bool" where
  "str_includes [] sub = (sub = [])"
| "str_includes (c # cs) sub = (prefix sub (c # cs) \<or> str_includes cs sub)"

text \<open>\<^verbatim>\<open>String.prototype.trim\<close> removes white space and line terminators at both ends.\<close>

definition isWhiteSpace :: "16 word \<Rightarrow> bool" where
  "isWhiteSpace c \<longleftrightarrow>
     c = 0x9 \<or> c = 0xA \<or> c = 0xB \<or> c = 0xC \<or> c = 0xD \<or> c = 0x20 \<or> c = 0xA0 \<or>
     c = 0x1680 \<or> (0x2000 \<le> c \<and> c \<le> 0x200A) \<or> c = 0x2028 \<or> c = 0x2029 \<or>
     c = 0x202F \<or> c = 0x205F \<or> c = 0x3000 \<or> c = 0xFEFF"

definition trim :: "js_string \<Rightarrow> js_string" where
  "trim s = rev (dropWhile isWhiteSpace (rev (dropWhile isWhiteSpace s)))"

subsection \<open>Audio encoding and decoding helpers\<close>

text \<open>
  Storing a number into an \<^verbatim>\<open>Int16Array\<close> truncates it towards zero and keeps the low
  16 bits; nothing clamps. The byte view of the array's buffer is little-endian.
\<close>

definition ToInt16 :: "real \<Rightarrow> 16 word" where
  "ToInt16 x = word_of_int (if 0 \<le> x then \<lfloor>x\<rfloor> else \<lceil>x\<rceil>)"

definition int16_bytes :: "16 word \<Rightarrow> byte list" where
  "int16_bytes w = [ucast w, ucast (drop_bit 8 w)]"

record Blob =
  data :: "byte list"
  mimeType :: string

definition createBlob :: "real list \<Rightarrow> Blob" where
  "createBlob samples =
     \<lparr> data = concat (map (\<lambda>x. int16_bytes (ToInt16 (x * 32768))) samples),
       mimeType = ''audio/pcm;rate=16000'' \<rparr>"

datatype decode_error = RangeError | NotSupportedError

text \<open>
  \<^verbatim>\<open>new Int16Array(data.buffer)\<close>: a view of the bytes, two per element; a buffer of odd
  byte length is refused with a RangeError.
\<close>

fun Int16Array :: "byte list \<Rightarrow> decode_error + 16 word list" where
  "Int16Array [] = Inr []"
| "Int16Array [b] = Inl RangeError"
| "Int16Array (lo # hi # bs) =
     (case Int16Array bs of
        Inl e \<Rightarrow> Inl e
      | Inr ws \<Rightarrow> Inr ((push_bit 8 (ucast hi) OR ucast lo) # ws))"

record AudioBuffer =
  numberOfChannels :: nat
  frames :: nat
  sampleRate :: nat
  channelData :: "real list list"

definition duration :: "AudioBuffer \<Rightarrow> real" where
  "duration b = real (frames b) / real (sampleRate b)"

text \<open>
  \<^verbatim>\<open>decodeAudioData\<close>: \<^verbatim>\<open>frameCount = dataInt16.length / numChannels\<close>;
  \<^verbatim>\<open>ctx.createBuffer\<close> takes the whole part of it as the buffer's length and refuses a
  buffer of no channel or no frame (NotSupportedError); sample \<open>i\<close> of a channel is
  element \<open>i * numChannels + channel\<close> divided by 32768.
\<close>

definition decodeAudioData :: "byte list \<Rightarrow> nat \<Rightarrow> nat \<Rightarrow> decode_error + AudioBuffer" where
  "decodeAudioData bytes rate numChannels =
     (case Int16Array bytes of
        Inl e \<Rightarrow> Inl e
      | Inr dataInt16 \<Rightarrow>
          (let frameCount = length dataInt16 div numChannels in
           if numChannels = 0 \<or> frameCount = 0 then Inl NotSupportedError
           else Inr \<lparr> numberOfChannels = numChannels, frames = frameCount, sampleRate = rate,
                      channelData =
                        map (\<lambda>channel.
                               map (\<lambda>i. real_of_int (sint (dataInt16 ! (i * numChannels + channel)))
                                          / 32768)
                                   [0..<frameCount])
                            [0..<numChannels] \<rparr>))"

subsection \<open>State of one hook instance\<close>

datatype ConnectionState = idle | connecting | connected | error | disconnected

text \<open>What can be thrown while the client is obtained; both are instances of
  \<^verbatim>\<open>Error\<close> and carry a message.\<close>

datatype exn = Error js_string | ReferenceError js_string

fun exn_message :: "exn \<Rightarrow> js_string" where
  "exn_message (Error msg) = msg"
| "exn_message (ReferenceError msg) = msg"

text \<open>
  The global \<^verbatim>\<open>process\<close> as the page has it: not defined (reading it throws a
  ReferenceError, whose message the engine words), defined without \<^verbatim>\<open>env\<close>, or with an
  \<^verbatim>\<open>env\<close> in which \<^verbatim>\<open>API_KEY\<close> is set or not.
\<close>

datatype process_global =
    process_undefined js_string
  | process_without_env
  | process_env "js_string option"

record LiveServerMessage =
  outputTranscription :: "js_string option"
  inputTranscription :: "js_string option"
  turnComplete :: bool
  inlineData :: "byte list option"
  interrupted :: bool

datatype ErrorEvent = ErrorEvent (message: js_string)

text \<open>
  The props of the hook and the environment it runs in. The two optional observers are
  represented by whether the caller supplied them.
\<close>

record hook_params =
  transcriptionOnly :: bool
  onApiKeyError :: bool
  onLiveTranscript :: bool
  process :: process_global

text \<open>
  What the hook does to the outside: calls on the transport, on the audio output and on
  the observers, in the order they are made. A connection is named by the number of
  connections opened before it, a source node by the number of nodes created before it.
  A call on the session promise (\<^verbatim>\<open>.then(session => ...)\<close>) is recorded when it is
  requested.
\<close>

datatype effect =
    LiveConnect nat
  | SessionClose nat
  | SendRealtimeInput nat Blob
  | OnTurnComplete js_string js_string
  | OnAssistantSpeakingStateChange bool
  | OnLiveTranscript js_string
  | OnApiKeyError
  | SourceStart nat real real
  | SourceStop nat

text \<open>
  \<open>connectionState\<close> is the React state as last set; \<open>paramsRef_connectionState\<close> is
  its copy in \<^verbatim>\<open>paramsRef.current\<close>, refreshed by the effect that runs after each
  render. \<open>sessionPromiseRef\<close> holds the connection whose promise the ref holds.
  The two transcription strings are the closure variables of the callbacks made by the
  latest \<^verbatim>\<open>startSession\<close>. \<open>aiInstance\<close> is the module's cached client (present or
  not). \<open>connections\<close> lists the connections the transport has opened and not yet closed;
  \<open>opened\<close> and \<open>nodes\<close> count the connections and source nodes created so far.
\<close>

record hook_state =
  connectionState :: ConnectionState
  sessionPromiseRef :: "nat option"
  outputAudioContext :: bool
  sources :: "nat list"
  nextStartTime :: real
  paramsRef_connectionState :: ConnectionState
  currentInputTranscription :: js_string
  currentOutputTranscription :: js_string
  aiInstance :: bool
  connections :: "nat list"
  opened :: nat
  nodes :: nat
  effects :: "effect list"

definition emit :: "effect list \<Rightarrow> hook_state \<Rightarrow> hook_state" where
  "emit es s = s\<lparr>effects := effects s @ es\<rparr>"

text \<open>The hook after its first render and mount effects; \<open>cached\<close> says whether the
  module already holds a client.\<close>

definition mount :: "hook_params \<Rightarrow> bool \<Rightarrow> hook_state" where
  "mount p cached =
     \<lparr> connectionState = idle, sessionPromiseRef = None,
       outputAudioContext = (\<not> transcriptionOnly p), sources = [], nextStartTime = 0,
       paramsRef_connectionState = idle,
       currentInputTranscription = [], currentOutputTranscription = [],
       aiInstance = cached, connections = [], opened = 0, nodes = 0, effects = [] \<rparr>"

text \<open>The effect without dependencies: every render copies the state into the ref.\<close>

definition render :: "hook_state \<Rightarrow> hook_state" where
  "render s = s\<lparr>paramsRef_connectionState := connectionState s\<rparr>"

subsection \<open>\<^verbatim>\<open>getAiInstance\<close> (src/services/geminiService.ts)\<close>

definition API_KEY_message :: js_string where
  "API_KEY_message =
     utf16 ''API_KEY environment variable is not set or accessible in this environment.''"

text \<open>
  The value of
  \<^verbatim>\<open>(typeof process !== 'undefined' && process.env) ? process.env.API_KEY : undefined\<close>.
\<close>

definition API_KEY :: "hook_params \<Rightarrow> js_string option" where
  "API_KEY p = (case process p of process_env var \<Rightarrow> var | _ \<Rightarrow> None)"

text \<open>
  Without a cached client, \<^verbatim>\<open>console.log("api",process.env)\<close> reads \<^verbatim>\<open>process\<close> first,
  before the test that guards against its absence: where \<^verbatim>\<open>process\<close> is not defined this
  throws the ReferenceError. Otherwise a missing or empty key throws the error about
  \<^verbatim>\<open>API_KEY\<close>.
\<close>

definition getAiInstance :: "hook_params \<Rightarrow> hook_state \<Rightarrow> exn + hook_state" where
  "getAiInstance p s =
     (if aiInstance s then Inr s
      else case process p of
             process_undefined msg \<Rightarrow> Inl (ReferenceError msg)
           | _ \<Rightarrow>
               (case API_KEY p of
                  None \<Rightarrow> Inl (Error API_KEY_message)
                | Some apiKey \<Rightarrow>
                    if apiKey = [] then Inl (Error API_KEY_message)
                    else Inr (s\<lparr>aiInstance := True\<rparr>)))"

subsection \<open>\<^verbatim>\<open>stopSession\<close>, \<^verbatim>\<open>startSession\<close>, \<^verbatim>\<open>sendAudioData\<close>\<close>

definition stopSession :: "hook_params \<Rightarrow> hook_state \<Rightarrow> hook_state" where
  "stopSession p s =
     (let s1 = (case sessionPromiseRef s of
                  Some c \<Rightarrow> emit [SessionClose c] s
                | None \<Rightarrow> s);
          s2 = emit (map SourceStop (sources s1)) s1;
          s3 = s2\<lparr>sources := [], nextStartTime := 0\<rparr>;
          s4 = emit [OnAssistantSpeakingStateChange False] s3
      in s4\<lparr>connectionState := idle\<rparr>)"

text \<open>
  \<^verbatim>\<open>ai.live.connect\<close> opens a connection: the transport now holds it, and its promise
  goes into the ref. An exception of \<^verbatim>\<open>getAiInstance\<close> is caught inside.
\<close>

definition startSession :: "hook_params \<Rightarrow> hook_state \<Rightarrow> hook_state" where
  "startSession p s =
     (if sessionPromiseRef s \<noteq> None then s
      else
        let s1 = s\<lparr>connectionState := connecting,
                   currentInputTranscription := [], currentOutputTranscription := []\<rparr>
        in case getAiInstance p s1 of
             Inr s2 \<Rightarrow>
               (let c = opened s2;
                    s3 = emit [LiveConnect c] (s2\<lparr>connections := connections s2 @ [c],
                                                    opened := Suc c\<rparr>)
                in s3\<lparr>sessionPromiseRef := Some c\<rparr>)
           | Inl e \<Rightarrow>
               (let s2 = s1\<lparr>connectionState := error\<rparr>
                in if str_includes (exn_message e) (utf16 ''API_KEY'') \<and> onApiKeyError p
                   then emit [OnApiKeyError] s2 else s2))"

definition sendAudioData :: "hook_params \<Rightarrow> real list \<Rightarrow> hook_state \<Rightarrow> hook_state" where
  "sendAudioData p audioData s =
     (if paramsRef_connectionState s \<noteq> connected then s
      else
        let pcmBlob = createBlob audioData
        in case sessionPromiseRef s of
             None \<Rightarrow> s
           | Some c \<Rightarrow> emit [SendRealtimeInput c pcmBlob] s)"

subsection \<open>The callbacks of a connection\<close>

definition onopen :: "hook_state \<Rightarrow> hook_state" where
  "onopen s = s\<lparr>connectionState := connected\<rparr>"

definition handle_transcription :: "hook_params \<Rightarrow> LiveServerMessage \<Rightarrow> hook_state \<Rightarrow> hook_state" where
  "handle_transcription p m s =
     (case outputTranscription m of
        Some txt \<Rightarrow> s\<lparr>currentOutputTranscription := currentOutputTranscription s @ txt\<rparr>
      | None \<Rightarrow>
          (case inputTranscription m of
             Some txt \<Rightarrow>
               (let s1 = s\<lparr>currentInputTranscription := currentInputTranscription s @ txt\<rparr>
                in if onLiveTranscript p then emit [OnLiveTranscript txt] s1 else s1)
           | None \<Rightarrow> s))"

definition handle_turnComplete :: "LiveServerMessage \<Rightarrow> hook_state \<Rightarrow> hook_state" where
  "handle_turnComplete m s =
     (if turnComplete m
      then (emit [OnTurnComplete (trim (currentInputTranscription s))
                                 (trim (currentOutputTranscription s))] s)
             \<lparr>currentInputTranscription := [], currentOutputTranscription := []\<rparr>
      else s)"

text \<open>
  The handler is asynchronous: an exception while decoding rejects its promise and the rest
  of the handler does not run. \<open>Rejected\<close> carries the state at that point.
\<close>

datatype 'a outcome = Completed 'a | Rejected decode_error 'a

definition handle_audio_playback ::
  "hook_params \<Rightarrow> LiveServerMessage \<Rightarrow> real \<Rightarrow> hook_state \<Rightarrow> hook_state outcome" where
  "handle_audio_playback p m currentTime s =
     (if transcriptionOnly p then Completed s
      else case inlineData m of
             None \<Rightarrow> Completed s
           | Some base64Audio \<Rightarrow>
               (if base64Audio = [] \<or> \<not> outputAudioContext s then Completed s
                else
                  (let s1 = emit [OnAssistantSpeakingStateChange True] s;
                       s2 = s1\<lparr>nextStartTime := max (nextStartTime s1) currentTime\<rparr>
                   in (case decodeAudioData base64Audio 24000 1 of
                         Inl e \<Rightarrow> Rejected e s2
                       | Inr audioBuffer \<Rightarrow>
                           (let sourceNode = nodes s2;
                                s3 = emit [SourceStart sourceNode (nextStartTime s2)
                                             (duration audioBuffer)]
                                       (s2\<lparr>nodes := Suc sourceNode\<rparr>);
                                s4 = s3\<lparr>nextStartTime :=
                                          nextStartTime s3 + duration audioBuffer\<rparr>
                            in Completed (s4\<lparr>sources := sources s4 @ [sourceNode]\<rparr>))))))"

definition handle_interruptions :: "hook_params \<Rightarrow> LiveServerMessage \<Rightarrow> hook_state \<Rightarrow> hook_state" where
  "handle_interruptions p m s =
     (if interrupted m \<and> \<not> transcriptionOnly p
      then emit [OnAssistantSpeakingStateChange False]
             ((emit (map SourceStop (sources s)) s)\<lparr>sources := [], nextStartTime := 0\<rparr>)
      else s)"

definition onmessage :: "hook_params \<Rightarrow> LiveServerMessage \<Rightarrow> real \<Rightarrow> hook_state \<Rightarrow> hook_state" where
  "onmessage p m currentTime s =
     (case handle_audio_playback p m currentTime
             (handle_turnComplete m (handle_transcription p m s)) of
        Rejected e s' \<Rightarrow> s'
      | Completed s' \<Rightarrow> handle_interruptions p m s')"

text \<open>The listener for \<^verbatim>\<open>ended\<close> that \<^verbatim>\<open>onmessage\<close> attaches to a source node.\<close>

definition ended :: "nat \<Rightarrow> hook_state \<Rightarrow> hook_state" where
  "ended sourceNode s =
     (let s1 = s\<lparr>sources := removeAll sourceNode (sources s)\<rparr>
      in if sources s1 = [] then emit [OnAssistantSpeakingStateChange False] s1 else s1)"

definition entity_not_found :: js_string where
  "entity_not_found = utf16 ''Requested entity was not found.''"

definition onerror :: "hook_params \<Rightarrow> ErrorEvent \<Rightarrow> hook_state \<Rightarrow> hook_state" where
  "onerror p e s =
     (let s1 = (if message e \<noteq> [] \<and> str_includes (message e) entity_not_found
                   \<and> onApiKeyError p
                then emit [OnApiKeyError] s else s)
      in s1\<lparr>connectionState := error\<rparr>)"

definition onclose :: "hook_state \<Rightarrow> hook_state" where
  "onclose s = s\<lparr>sessionPromiseRef := None, connectionState := disconnected\<rparr>"

subsection \<open>Runs of the hook\<close>

text \<open>
  What can happen to one instance: the three calls of its public interface, a render, the
  callbacks of a connection, and the end of a source node. The transport calls back only
  for a connection it holds, and closing ends the connection; a node ends only once it
  exists. An event that cannot happen has no successor state. A message is handled as one
  step: nothing else runs between the parts of its handler. \<^verbatim>\<open>playAudioData\<close>, which
  plays one buffer outside the session and touches neither the connection nor the
  scheduling state, and what the console logging prints are left out.
\<close>

datatype event =
    StartSession
  | StopSession
  | SendAudioData "real list"
  | Render
  | Open nat
  | Message nat LiveServerMessage real
  | Failure nat ErrorEvent
  | Close nat
  | Ended nat

fun step :: "hook_params \<Rightarrow> event \<Rightarrow> hook_state \<Rightarrow> hook_state option" where
  "step p StartSession s = Some (startSession p s)"
| "step p StopSession s = Some (stopSession p s)"
| "step p (SendAudioData audioData) s = Some (sendAudioData p audioData s)"
| "step p Render s = Some (render s)"
| "step p (Open c) s = (if c \<in> set (connections s) then Some (onopen s) else None)"
| "step p (Message c m currentTime) s =
     (if c \<in> set (connections s) then Some (onmessage p m currentTime s) else None)"
| "step p (Failure c e) s = (if c \<in> set (connections s) then Some (onerror p e s) else None)"
| "step p (Close c) s =
     (if c \<in> set (connections s)
      then Some (onclose (s\<lparr>connections := removeAll c (connections s)\<rparr>)) else None)"
| "step p (Ended n) s = (if n < nodes s then Some (ended n s) else None)"

fun run :: "hook_params \<Rightarrow> event list \<Rightarrow> hook_state \<Rightarrow> hook_state option" where
  "run p [] s = Some s"
| "run p (e # es) s = (case step p e s of None \<Rightarrow> None | Some s' \<Rightarrow> run p es s')"

subsection \<open>Observations and sample inputs\<close>

text \<open>The connections opened, the turns handed to the turn-complete observer and the
  playback starts (start time, duration) in a list of effects, in order.\<close>

fun opens :: "effect list \<Rightarrow> nat list" where
  "opens [] = []"
| "opens (LiveConnect c # es) = c # opens es"
| "opens (e # es) = opens es"

fun turns :: "effect list \<Rightarrow> (js_string \<times> js_string) list" where
  "turns [] = []"
| "turns (OnTurnComplete u a # es) = (u, a) # turns es"
| "turns (e # es) = turns es"

fun scheduled :: "effect list \<Rightarrow> (real \<times> real) list" where
  "scheduled [] = []"
| "scheduled (SourceStart n t d # es) = (t, d) # scheduled es"
| "scheduled (e # es) = scheduled es"

text \<open>
  The promise in the ref is the one connection the transport holds, and a state of
  \<open>connecting\<close> or \<open>connected\<close> comes with a promise in the ref.
\<close>

definition consistent :: "hook_state \<Rightarrow> bool" where
  "consistent s \<longleftrightarrow>
     connections s = (case sessionPromiseRef s of None \<Rightarrow> [] | Some c \<Rightarrow> [c]) \<and>
     (connectionState s = connecting \<or> connectionState s = connected
        \<longrightarrow> sessionPromiseRef s \<noteq> None)"

text \<open>In the state \<open>idle\<close> with no promise in the ref, nothing plays and the cursor is
  zero.\<close>

definition quiet_when_idle :: "hook_state \<Rightarrow> bool" where
  "quiet_when_idle s \<longleftrightarrow>
     (connectionState s = idle \<and> sessionPromiseRef s = None
        \<longrightarrow> sources s = [] \<and> nextStartTime s = 0)"

definition no_content :: LiveServerMessage where
  "no_content = \<lparr> outputTranscription = None, inputTranscription = None, turnComplete = False,
                   inlineData = None, interrupted = False \<rparr>"

text \<open>A caller that plays audio, supplies both optional observers and has a key configured.\<close>

definition sample_params :: hook_params where
  "sample_params = \<lparr> transcriptionOnly = False, onApiKeyError = True, onLiveTranscript = True,
                     process = process_env (Some (utf16 ''key'')) \<rparr>"

section \<open>The audio codec\<close>

lemma bytes_int16:
  "(push_bit 8 (ucast (ucast (drop_bit 8 w) :: byte)) OR ucast (ucast w :: byte) :: 16 word) = w"
  by (rule bit_word_eqI) (auto simp add: bit_simps)

lemma Int16Array_int16_bytes: "Int16Array (concat (map int16_bytes ws)) = Inr ws"
  by (induction ws) (simp_all add: int16_bytes_def bytes_int16)

lemma decodeAudioData_mono:
  "Int16Array bytes = Inr ws \<Longrightarrow> ws \<noteq> [] \<Longrightarrow>
   decodeAudioData bytes rate 1 =
     Inr \<lparr> numberOfChannels = 1, frames = length ws, sampleRate = rate,
           channelData = [map (\<lambda>w. real_of_int (sint w) / 32768) ws] \<rparr>"
proof -
  assume v: "Int16Array bytes = Inr ws" and ne: "ws \<noteq> []"
  have "map (\<lambda>i. real_of_int (sint (ws ! i)) / 32768) [0..<length ws]
          = map (\<lambda>w. real_of_int (sint w) / 32768) ws"
    by (rule nth_equalityI) simp_all
  with v ne show ?thesis by (simp add: decodeAudioData_def Let_def)
qed

text \<open>Below full scale the 16-bit store does not wrap: the word holds the truncated value.\<close>

lemma sint_ToInt16:
  assumes "- 1 \<le> x" and "x < 1"
  shows "sint (ToInt16 (x * 32768)) = (if 0 \<le> x then \<lfloor>x * 32768\<rfloor> else \<lceil>x * 32768\<rceil>)"
proof -
  let ?k = "if 0 \<le> x * 32768 then \<lfloor>x * 32768\<rfloor> else \<lceil>x * 32768\<rceil>"
  have lo: "- 32768 \<le> ?k" using assms by (auto simp: le_floor_iff le_ceiling_iff)
  have hi: "?k < 32768" using assms by (auto simp: floor_less_iff ceiling_less_iff)
  have "sint (word_of_int ?k :: 16 word) = ?k"
    using lo hi by (simp add: sint_sbintrunc' signed_take_bit_int_eq_self)
  then show ?thesis by (simp add: ToInt16_def zero_le_mult_iff)
qed

lemma quantise_close:
  assumes "- 1 \<le> x" and "x < 1"
  shows "\<bar>real_of_int (sint (ToInt16 (x * 32768))) / 32768 - x\<bar> < 1 / 32768"
proof -
  let ?y = "x * 32768"
  have "\<bar>real_of_int (if 0 \<le> x then \<lfloor>?y\<rfloor> else \<lceil>?y\<rceil>) - ?y\<bar> < 1"
    by (auto; linarith)
  then have "\<bar>real_of_int (sint (ToInt16 ?y)) - ?y\<bar> < 1"
    using sint_ToInt16 [OF assms] by simp
  then have "\<bar>(real_of_int (sint (ToInt16 ?y)) - ?y) / 32768\<bar> < 1 / 32768"
    by simp
  then show ?thesis by (simp add: diff_divide_distrib)
qed

text \<open>
  Claim C3, as the code has it. Encoding a non-empty array of samples that are at least -1
  and strictly below 1 with \<^verbatim>\<open>createBlob\<close> and decoding the bytes with
  \<^verbatim>\<open>decodeAudioData\<close> (one channel) succeeds and gives one channel with as many samples,
  each less than 1/32768 away from the sample it came from. The upper end of the interval
  is excluded, and so is the empty array, for which the decoder is refused its buffer.
\<close>

theorem codec_round_trip:
  assumes "xs \<noteq> []" and "list_all (\<lambda>x. - 1 \<le> x \<and> x < 1) xs"
  shows "\<exists>ys. map_sum id channelData (decodeAudioData (data (createBlob xs)) 24000 1) = Inr [ys]
            \<and> list_all2 (\<lambda>y x. \<bar>y - x\<bar> < 1 / 32768) ys xs"
proof -
  let ?ws = "map (\<lambda>x. ToInt16 (x * 32768)) xs"
  let ?ys = "map (\<lambda>w. real_of_int (sint w) / 32768) ?ws"
  have "data (createBlob xs) = concat (map int16_bytes ?ws)"
    by (simp add: createBlob_def comp_def)
  then have "Int16Array (data (createBlob xs)) = Inr ?ws"
    by (simp only: Int16Array_int16_bytes)
  moreover have "?ws \<noteq> []" using assms(1) by simp
  ultimately have "decodeAudioData (data (createBlob xs)) 24000 1 =
      Inr \<lparr> numberOfChannels = 1, frames = length ?ws, sampleRate = 24000,
            channelData = [?ys] \<rparr>"
    by (rule decodeAudioData_mono)
  then have "map_sum id channelData (decodeAudioData (data (createBlob xs)) 24000 1) = Inr [?ys]"
    by simp
  moreover have "list_all2 (\<lambda>y x. \<bar>y - x\<bar> < 1 / 32768) ?ys xs"
  proof (rule list_all2_all_nthI)
    show "length ?ys = length xs" by simp
  next
    fix i assume "i < length ?ys"
    then have i: "i < length xs" by simp
    then have "- 1 \<le> xs ! i \<and> xs ! i < 1" using assms(2) by (simp add: list_all_length)
    then have "\<bar>real_of_int (sint (ToInt16 (xs ! i * 32768))) / 32768 - xs ! i\<bar> < 1 / 32768"
      by (simp only: quantise_close)
    with i show "\<bar>?ys ! i - xs ! i\<bar> < 1 / 32768"
      by (simp only: nth_map length_map)
  qed
  ultimately show ?thesis by blast
qed

theorem codec_round_trip_witness:
  "[1 / 2, - 1, 1 / 65536] \<noteq> ([] :: real list)
   \<and> list_all (\<lambda>x. - 1 \<le> x \<and> x < 1) [1 / 2, - 1, 1 / 65536 :: real]
   \<and> (\<exists>ys. map_sum id channelData
              (decodeAudioData (data (createBlob [1 / 2, - 1, 1 / 65536])) 24000 1) = Inr [ys]
          \<and> list_all2 (\<lambda>y x. \<bar>y - x\<bar> < 1 / 32768) ys [1 / 2, - 1, 1 / 65536])"
  using codec_round_trip [of "[1 / 2, - 1, 1 / 65536]"] by simp

text \<open>
  Claim C3 as stated fails at the sample 1: 1 * 32768 does not fit 16 signed bits, the store
  wraps it to -32768, and the round trip gives -1, which is 2 away.
\<close>

theorem full_scale_sample_wraps:
  "map_sum id channelData (decodeAudioData (data (createBlob [1])) 24000 1) = Inr [ [- 1] ]
   \<and> \<not> \<bar>(- 1 :: real) - 1\<bar> \<le> 1 / 32768"
  by (simp add: createBlob_def decodeAudioData_def ToInt16_def int16_bytes_def Let_def)

section \<open>The connection life cycle\<close>

lemmas hook_defs = startSession_def stopSession_def sendAudioData_def render_def onopen_def
  onclose_def onerror_def onmessage_def handle_transcription_def handle_turnComplete_def
  handle_audio_playback_def handle_interruptions_def ended_def emit_def getAiInstance_def
  API_KEY_def Let_def

lemma opens_append: "opens (xs @ ys) = opens xs @ opens ys"
  by (induction xs rule: opens.induct) simp_all

lemma onmessage_connection:
  "connectionState (onmessage p m t s) = connectionState s
   \<and> sessionPromiseRef (onmessage p m t s) = sessionPromiseRef s
   \<and> connections (onmessage p m t s) = connections s"
  by (simp add: hook_defs split: option.split sum.split)

lemma consistent_mount: "consistent (mount p cached)"
  by (simp add: consistent_def mount_def)

lemma consistent_step:
  assumes "consistent s" and "step p e s = Some s'"
  shows "consistent s'"
proof (cases e)
  case StartSession
  with assms show ?thesis
    by (auto simp: consistent_def startSession_def getAiInstance_def API_KEY_def emit_def
               Let_def
             split: option.splits if_splits process_global.splits sum.splits)
next
  case StopSession
  with assms show ?thesis
    by (auto simp: consistent_def stopSession_def emit_def Let_def split: option.splits)
next
  case (SendAudioData d)
  have "connectionState (sendAudioData p d s) = connectionState s
     \<and> sessionPromiseRef (sendAudioData p d s) = sessionPromiseRef s
     \<and> connections (sendAudioData p d s) = connections s"
    by (simp add: sendAudioData_def emit_def Let_def split: option.split)
  with SendAudioData assms show ?thesis
    by (auto simp: consistent_def)
next
  case Render
  with assms show ?thesis by (auto simp: consistent_def render_def)
next
  case (Open c)
  with assms show ?thesis
    by (auto simp: consistent_def onopen_def split: if_splits option.splits)
next
  case (Message c m t)
  with assms show ?thesis
    by (auto simp: consistent_def onmessage_connection split: if_splits)
next
  case (Failure c e)
  with assms show ?thesis
    by (auto simp: consistent_def onerror_def emit_def Let_def split: if_splits option.splits)
next
  case (Close c)
  with assms show ?thesis
    by (auto simp: consistent_def onclose_def split: if_splits option.splits)
next
  case (Ended n)
  with assms show ?thesis
    by (auto simp: consistent_def ended_def emit_def Let_def split: if_splits)
qed

lemma consistent_run:
  "consistent s \<Longrightarrow> run p evs s = Some s' \<Longrightarrow> consistent s'"
proof (induction evs arbitrary: s)
  case Nil
  then show ?case by simp
next
  case (Cons e evs)
  from Cons.prems(2) obtain s1 where s1: "step p e s = Some s1" and r: "run p evs s1 = Some s'"
    by (auto split: option.splits)
  from Cons.prems(1) s1 have "consistent s1" by (rule consistent_step)
  then show ?case using r by (rule Cons.IH)
qed

lemma startSession_held: "sessionPromiseRef s \<noteq> None \<Longrightarrow> startSession p s = s"
  by (simp add: startSession_def)

lemma startSession_opens:
  assumes "sessionPromiseRef s = None"
    and "aiInstance s \<or> (API_KEY p \<noteq> None \<and> API_KEY p \<noteq> Some [])"
  shows "connectionState (startSession p s) = connecting"
    and "sessionPromiseRef (startSession p s) = Some (opened s)"
    and "connections (startSession p s) = connections s @ [opened s]"
    and "effects (startSession p s) = effects s @ [LiveConnect (opened s)]"
  using assms
  by (auto simp: startSession_def getAiInstance_def API_KEY_def emit_def Let_def
           split: option.splits process_global.splits)

lemma startSession_opens_at_most_one:
  "length (opens (effects (startSession p s))) \<le> Suc (length (opens (effects s)))"
  by (auto simp: startSession_def getAiInstance_def API_KEY_def emit_def Let_def opens_append
           split: option.splits process_global.splits)

text \<open>
  Claim C1, as the code has it. In every state that a run of the hook reaches from its mount:
  the transport holds at most one connection (open or pending); \<^verbatim>\<open>startSession\<close> is a
  no-op whenever the state is \<open>connecting\<close> or \<open>connected\<close>, and more generally whenever
  the ref still holds a promise (it holds one from a successful start until the transport's
  close acknowledgment); when the ref holds none and the client can be obtained (it is
  cached, or a key is configured), \<^verbatim>\<open>startSession\<close> opens exactly one connection and sets
  the state to \<open>connecting\<close>, a second call right after it changes nothing, and the open
  acknowledgment sets the state to \<open>connected\<close>; two calls in a row never open more than
  one connection.
\<close>

theorem single_connection:
  assumes "run p evs (mount p cached) = Some s"
  shows "length (connections s) \<le> 1
     \<and> (connectionState s = connecting \<or> connectionState s = connected
          \<longrightarrow> startSession p s = s)
     \<and> (sessionPromiseRef s \<noteq> None \<longrightarrow> startSession p s = s)
     \<and> (sessionPromiseRef s = None \<and> (aiInstance s \<or> (API_KEY p \<noteq> None \<and> API_KEY p \<noteq> Some []))
          \<longrightarrow> connectionState (startSession p s) = connecting
            \<and> connections (startSession p s) = [opened s]
            \<and> opens (effects (startSession p s)) = opens (effects s) @ [opened s]
            \<and> startSession p (startSession p s) = startSession p s
            \<and> connectionState (onopen (startSession p s)) = connected)
     \<and> length (opens (effects (startSession p (startSession p s))))
          \<le> Suc (length (opens (effects s)))"
proof -
  have c: "consistent s"
    using consistent_mount assms by (rule consistent_run)
  have one: "length (connections s) \<le> 1"
    using c by (simp add: consistent_def split: option.splits)
  have noop: "connectionState s = connecting \<or> connectionState s = connected
          \<longrightarrow> startSession p s = s"
    using c by (auto simp: consistent_def startSession_held)
  have fresh: "sessionPromiseRef s = None \<and> (aiInstance s \<or> (API_KEY p \<noteq> None \<and> API_KEY p \<noteq> Some []))
          \<longrightarrow> connectionState (startSession p s) = connecting
            \<and> connections (startSession p s) = [opened s]
            \<and> opens (effects (startSession p s)) = opens (effects s) @ [opened s]
            \<and> startSession p (startSession p s) = startSession p s
            \<and> connectionState (onopen (startSession p s)) = connected"
  proof (intro impI)
    assume h: "sessionPromiseRef s = None \<and> (aiInstance s \<or> (API_KEY p \<noteq> None \<and> API_KEY p \<noteq> Some []))"
    then have n: "sessionPromiseRef s = None"
      and k: "aiInstance s \<or> (API_KEY p \<noteq> None \<and> API_KEY p \<noteq> Some [])" by simp_all
    from c n have "connections s = []" by (simp add: consistent_def)
    then show "connectionState (startSession p s) = connecting
            \<and> connections (startSession p s) = [opened s]
            \<and> opens (effects (startSession p s)) = opens (effects s) @ [opened s]
            \<and> startSession p (startSession p s) = startSession p s
            \<and> connectionState (onopen (startSession p s)) = connected"
      using startSession_opens [OF n k]
      by (simp add: opens_append startSession_held onopen_def)
  qed
  have two: "length (opens (effects (startSession p (startSession p s))))
          \<le> Suc (length (opens (effects s)))"
  proof (cases "sessionPromiseRef (startSession p s) = None")
    case True
    then have "opens (effects (startSession p s)) = opens (effects s)"
      by (auto simp: startSession_def getAiInstance_def API_KEY_def emit_def Let_def
               opens_append
           split: option.splits process_global.splits if_splits)
    then show ?thesis using startSession_opens_at_most_one [of p "startSession p s"] by simp
  next
    case False
    then show ?thesis
      using startSession_opens_at_most_one [of p s] by (simp add: startSession_held)
  qed
  have held: "sessionPromiseRef s \<noteq> None \<longrightarrow> startSession p s = s"
    by (simp add: startSession_held)
  from one noop held fresh two show ?thesis by blast
qed


theorem single_connection_witness:
  "run sample_params [StartSession, Open 0, StopSession, Close 0] (mount sample_params False)
     \<noteq> None
   \<and> length (connections (the (run sample_params [StartSession, Open 0, StopSession, Close 0]
                                  (mount sample_params False)))) \<le> 1
   \<and> sessionPromiseRef (the (run sample_params [StartSession, Open 0, StopSession, Close 0]
                                  (mount sample_params False))) = None
   \<and> opens (effects (startSession sample_params
         (the (run sample_params [StartSession, Open 0, StopSession, Close 0]
                                  (mount sample_params False))))) = [0, 1]"
  using single_connection [of sample_params "[StartSession, Open 0, StopSession, Close 0]" False
      "the (run sample_params [StartSession, Open 0, StopSession, Close 0]
              (mount sample_params False))"]
  by (simp add: hook_defs mount_def sample_params_def utf16_def)

text \<open>
  Claim C1 as stated fails after \<^verbatim>\<open>stopSession\<close>: the state is \<open>idle\<close>, neither
  \<open>connecting\<close> nor \<open>connected\<close>, but the ref keeps the promise until the close
  acknowledgment, so a \<^verbatim>\<open>startSession\<close> made now opens nothing and leaves the state
  \<open>idle\<close>. It also fails in the state \<open>idle\<close> after mount when no key is configured:
  the call ends in \<open>error\<close> and opens nothing.
\<close>

theorem start_after_stop_opens_nothing:
  "map_option connectionState
     (run sample_params [StartSession, StopSession] (mount sample_params False)) = Some idle
   \<and> map_option connectionState
     (run sample_params [StartSession, StopSession, StartSession] (mount sample_params False))
       = Some idle
   \<and> map_option effects
     (run sample_params [StartSession, StopSession, StartSession] (mount sample_params False))
       = Some [LiveConnect 0, SessionClose 0, OnAssistantSpeakingStateChange False]
   \<and> map_option (\<lambda>s. (connectionState s, effects s))
     (run (sample_params\<lparr>process := process_env None\<rparr>) [StartSession]
        (mount (sample_params\<lparr>process := process_env None\<rparr>) False))
       = Some (error, [OnApiKeyError])"
  by (simp add: hook_defs mount_def sample_params_def utf16_def API_KEY_message_def)

section \<open>Playback scheduling\<close>

lemma scheduled_append: "scheduled (xs @ ys) = scheduled xs @ scheduled ys"
  by (induction xs rule: scheduled.induct) simp_all

lemma transcription_keeps_playback:
  "nextStartTime (handle_turnComplete m (handle_transcription p m s)) = nextStartTime s
   \<and> outputAudioContext (handle_turnComplete m (handle_transcription p m s)) = outputAudioContext s
   \<and> scheduled (effects (handle_turnComplete m (handle_transcription p m s))) = scheduled (effects s)"
  by (simp add: handle_turnComplete_def handle_transcription_def emit_def Let_def scheduled_append
           split: option.split)

lemma handle_audio_playback_schedules:
  assumes "\<not> transcriptionOnly p" and "outputAudioContext s"
    and "inlineData m = Some b" and "decodeAudioData b 24000 1 = Inr buf"
  shows "\<exists>s'. handle_audio_playback p m t s = Completed s'
     \<and> nextStartTime s' = max (nextStartTime s) t + duration buf
     \<and> outputAudioContext s'
     \<and> scheduled (effects s') = scheduled (effects s) @ [(max (nextStartTime s) t, duration buf)]"
proof -
  have "b \<noteq> []" using assms(4) by (auto simp: decodeAudioData_def)
  with assms show ?thesis
    by (simp add: handle_audio_playback_def emit_def Let_def scheduled_append)
qed

lemma onmessage_schedules:
  assumes "\<not> transcriptionOnly p" and "outputAudioContext s"
    and "inlineData m = Some b" and "decodeAudioData b 24000 1 = Inr buf" and "\<not> interrupted m"
  shows "nextStartTime (onmessage p m t s) = max (nextStartTime s) t + duration buf
     \<and> outputAudioContext (onmessage p m t s)
     \<and> scheduled (effects (onmessage p m t s))
         = scheduled (effects s) @ [(max (nextStartTime s) t, duration buf)]"
proof -
  let ?s0 = "handle_turnComplete m (handle_transcription p m s)"
  have ctx: "outputAudioContext ?s0" using assms(2) by (simp add: transcription_keeps_playback)
  obtain s' where s': "handle_audio_playback p m t ?s0 = Completed s'"
    and n: "nextStartTime s' = max (nextStartTime ?s0) t + duration buf"
    and o: "outputAudioContext s'"
    and e: "scheduled (effects s') = scheduled (effects ?s0) @ [(max (nextStartTime ?s0) t, duration buf)]"
    using handle_audio_playback_schedules [OF assms(1) ctx assms(3) assms(4)] by blast
  have "onmessage p m t s = s'"
    using s' assms(5) by (simp add: onmessage_def handle_interruptions_def)
  with n o e show ?thesis by (simp add: transcription_keeps_playback)
qed

lemma duration_nonneg: "0 \<le> duration buf"
  by (simp add: duration_def)

text \<open>
  Claim C2. When audio is played (not transcription-only, output context present), a message
  whose audio payload decodes is scheduled to start at the maximum of the clock reading and
  \<open>nextStartTime\<close>, and \<open>nextStartTime\<close> becomes that start plus the buffer's duration.
  Hence three such messages with buffers of durations \<open>d1\<close>, \<open>d2\<close>, \<open>d3\<close>, the second and
  third handled at clock readings below \<open>d1\<close>, start at \<open>t0\<close>, \<open>t0 + d1\<close> and
  \<open>t0 + d1 + d2\<close>, where \<open>t0\<close> is the start of the first: each starts exactly where the one
  before ends, with neither overlap nor gap. Times are reals here, so the sums are exact;
  the rounding of the JavaScript numbers is not represented.
\<close>

theorem gapless_scheduling:
  assumes "\<not> transcriptionOnly p" and "outputAudioContext s"
    and "inlineData m1 = Some b1" and "decodeAudioData b1 24000 1 = Inr buf1" and "\<not> interrupted m1"
    and "inlineData m2 = Some b2" and "decodeAudioData b2 24000 1 = Inr buf2" and "\<not> interrupted m2"
    and "inlineData m3 = Some b3" and "decodeAudioData b3 24000 1 = Inr buf3" and "\<not> interrupted m3"
    and "0 \<le> t1" and "t2 < duration buf1" and "t3 < duration buf1"
  shows "scheduled (effects (onmessage p m1 t1 s))
           = scheduled (effects s) @ [(max (nextStartTime s) t1, duration buf1)]
     \<and> nextStartTime (onmessage p m1 t1 s) = max (nextStartTime s) t1 + duration buf1
     \<and> scheduled (effects (onmessage p m3 t3 (onmessage p m2 t2 (onmessage p m1 t1 s))))
           = scheduled (effects s) @
             [(max (nextStartTime s) t1, duration buf1),
              (max (nextStartTime s) t1 + duration buf1, duration buf2),
              (max (nextStartTime s) t1 + duration buf1 + duration buf2, duration buf3)]"
proof -
  let ?t0 = "max (nextStartTime s) t1"
  let ?s1 = "onmessage p m1 t1 s"
  let ?s2 = "onmessage p m2 t2 ?s1"
  let ?s3 = "onmessage p m3 t3 ?s2"
  note d = duration_nonneg [of buf1] duration_nonneg [of buf2]
  have 1: "nextStartTime ?s1 = ?t0 + duration buf1" "outputAudioContext ?s1"
    "scheduled (effects ?s1) = scheduled (effects s) @ [(?t0, duration buf1)]"
    using onmessage_schedules [OF assms(1,2,3,4,5), of t1] by simp_all
  have m2: "max (nextStartTime ?s1) t2 = ?t0 + duration buf1"
    using 1(1) assms(12,13) by simp
  have 2: "nextStartTime ?s2 = ?t0 + duration buf1 + duration buf2" "outputAudioContext ?s2"
    "scheduled (effects ?s2) = scheduled (effects ?s1) @ [(?t0 + duration buf1, duration buf2)]"
    using onmessage_schedules [OF assms(1) 1(2) assms(6,7,8), of t2] m2 by simp_all
  have m3: "max (nextStartTime ?s2) t3 = ?t0 + duration buf1 + duration buf2"
    using 2(1) assms(12,14) d by simp
  have 3: "scheduled (effects ?s3) = scheduled (effects ?s2) @ [(?t0 + duration buf1 + duration buf2, duration buf3)]"
    using onmessage_schedules [OF assms(1) 2(2) assms(9,10,11), of t3] m3 by simp
  from 1 2 3 show ?thesis by simp
qed


theorem gapless_scheduling_witness:
  "\<not> transcriptionOnly sample_params \<and> outputAudioContext (mount sample_params False)
   \<and> decodeAudioData [0, 0, 0, 64] 24000 1
       = Inr \<lparr>numberOfChannels = 1, frames = 2, sampleRate = 24000, channelData = [ [0, 1 / 2] ]\<rparr>
   \<and> decodeAudioData [0, 192] 24000 1
       = Inr \<lparr>numberOfChannels = 1, frames = 1, sampleRate = 24000, channelData = [ [- 1 / 2] ]\<rparr>
   \<and> (0 :: real) \<le> 0 \<and> (1 / 24000 :: real) < 2 / 24000 \<and> (1 / 16000 :: real) < 2 / 24000
   \<and> scheduled (effects
         (onmessage sample_params (no_content\<lparr>inlineData := Some [0, 0, 0, 64]\<rparr>) (1 / 16000)
           (onmessage sample_params (no_content\<lparr>inlineData := Some [0, 192]\<rparr>) (1 / 24000)
             (onmessage sample_params (no_content\<lparr>inlineData := Some [0, 0, 0, 64]\<rparr>) 0
               (mount sample_params False)))))
       = [(0, 1 / 12000), (1 / 12000, 1 / 24000), (1 / 8000, 1 / 12000)]"
  using gapless_scheduling [of sample_params "mount sample_params False"
      "no_content\<lparr>inlineData := Some [0, 0, 0, 64]\<rparr>" "[0, 0, 0, 64]"
      "\<lparr>numberOfChannels = 1, frames = 2, sampleRate = 24000, channelData = [ [0, 1 / 2] ]\<rparr>"
      "no_content\<lparr>inlineData := Some [0, 192]\<rparr>" "[0, 192]"
      "\<lparr>numberOfChannels = 1, frames = 1, sampleRate = 24000, channelData = [ [- 1 / 2] ]\<rparr>"
      "no_content\<lparr>inlineData := Some [0, 0, 0, 64]\<rparr>" "[0, 0, 0, 64]"
      "\<lparr>numberOfChannels = 1, frames = 2, sampleRate = 24000, channelData = [ [0, 1 / 2] ]\<rparr>"
      0 "1 / 24000" "1 / 16000"]
  by (simp add: sample_params_def mount_def no_content_def decodeAudioData_def duration_def)


section \<open>Sending audio\<close>

lemma sendAudioData_dropped:
  "paramsRef_connectionState s \<noteq> connected \<Longrightarrow> sendAudioData p audioData s = s"
  by (simp add: sendAudioData_def)

text \<open>
  Claim C4 at a failing input. \<^verbatim>\<open>sendAudioData\<close> tests the copy of the connection state in
  \<^verbatim>\<open>paramsRef\<close>, which only a render refreshes. After start, open acknowledgment and a
  render, \<^verbatim>\<open>stopSession\<close> sets the state to \<open>idle\<close>; a frame handed over before the next
  render still finds \<open>connected\<close> in the ref and a promise in \<^verbatim>\<open>sessionPromiseRef\<close>, and
  the send primitive is called with it.
\<close>

theorem frame_sent_after_stop:
  "map_option connectionState
     (run sample_params [StartSession, Open 0, Render, StopSession] (mount sample_params False))
       = Some idle
   \<and> map_option effects
     (run sample_params [StartSession, Open 0, Render, StopSession, SendAudioData [1 / 2] ]
        (mount sample_params False))
       = Some [LiveConnect 0, SessionClose 0, OnAssistantSpeakingStateChange False,
               SendRealtimeInput 0 \<lparr>data = [0, 64], mimeType = ''audio/pcm;rate=16000''\<rparr>]"
  by (simp add: hook_defs mount_def sample_params_def utf16_def createBlob_def ToInt16_def
        int16_bytes_def)

section \<open>Transcription and turns\<close>

lemma turns_append: "turns (xs @ ys) = turns xs @ turns ys"
  by (induction xs rule: turns.induct) simp_all

lemma onmessage_text_only:
  "inlineData m = None \<Longrightarrow> \<not> interrupted m \<Longrightarrow>
   onmessage p m t s = handle_turnComplete m (handle_transcription p m s)"
  by (simp add: onmessage_def handle_audio_playback_def handle_interruptions_def)

lemma input_fragment:
  "currentInputTranscription (onmessage p (no_content\<lparr>inputTranscription := Some txt\<rparr>) t s)
      = currentInputTranscription s @ txt
   \<and> currentOutputTranscription (onmessage p (no_content\<lparr>inputTranscription := Some txt\<rparr>) t s)
      = currentOutputTranscription s
   \<and> turns (effects (onmessage p (no_content\<lparr>inputTranscription := Some txt\<rparr>) t s))
      = turns (effects s)"
  by (simp add: onmessage_text_only no_content_def handle_turnComplete_def
        handle_transcription_def emit_def turns_append Let_def)

lemma output_fragment:
  "currentInputTranscription (onmessage p (no_content\<lparr>outputTranscription := Some txt\<rparr>) t s)
      = currentInputTranscription s
   \<and> currentOutputTranscription (onmessage p (no_content\<lparr>outputTranscription := Some txt\<rparr>) t s)
      = currentOutputTranscription s @ txt
   \<and> turns (effects (onmessage p (no_content\<lparr>outputTranscription := Some txt\<rparr>) t s))
      = turns (effects s)"
  by (simp add: onmessage_text_only no_content_def handle_turnComplete_def
        handle_transcription_def)

lemma turn_complete_signal:
  "currentInputTranscription (onmessage p (no_content\<lparr>turnComplete := True\<rparr>) t s) = []
   \<and> currentOutputTranscription (onmessage p (no_content\<lparr>turnComplete := True\<rparr>) t s) = []
   \<and> turns (effects (onmessage p (no_content\<lparr>turnComplete := True\<rparr>) t s))
      = turns (effects s) @ [(trim (currentInputTranscription s),
                              trim (currentOutputTranscription s))]"
  by (simp add: onmessage_text_only no_content_def handle_turnComplete_def
        handle_transcription_def emit_def turns_append)

lemma trim_examples:
  "trim (utf16 ''Hel'' @ utf16 ''lo '') = utf16 ''Hello''"
  "trim (utf16 ''Hi'' @ utf16 '' there'') = utf16 ''Hi there''"
  "trim [] = []"
  by (simp_all add: utf16_def trim_def isWhiteSpace_def)


text \<open>
  Claim C5. An output fragment is appended to the assistant string and an input fragment
  (in a message without output fragment) to the user string, by concatenation; the
  turn-complete signal hands the two trimmed strings to the turn-complete observer and
  empties both. From empty strings, messages with the user fragments "Hel", "lo " and the
  assistant fragments "Hi", " there" followed by two turn-complete signals, handled in this
  order, give the turns ("Hello", "Hi there") and then ("", "").
\<close>

theorem turn_accumulation_and_flush:
  "handle_transcription p (m\<lparr>outputTranscription := Some txt\<rparr>) s
     = s\<lparr>currentOutputTranscription := currentOutputTranscription s @ txt\<rparr>
   \<and> currentInputTranscription
       (handle_transcription p (m\<lparr>outputTranscription := None, inputTranscription := Some txt\<rparr>) s)
     = currentInputTranscription s @ txt
   \<and> handle_turnComplete (m\<lparr>turnComplete := True\<rparr>) s
     = (emit [OnTurnComplete (trim (currentInputTranscription s))
                             (trim (currentOutputTranscription s))] s)
         \<lparr>currentInputTranscription := [], currentOutputTranscription := []\<rparr>
   \<and> turns (effects
        (foldl (\<lambda>s' m'. onmessage p m' t s')
           (s\<lparr>currentInputTranscription := [], currentOutputTranscription := []\<rparr>)
           [no_content\<lparr>inputTranscription := Some (utf16 ''Hel'')\<rparr>,
            no_content\<lparr>inputTranscription := Some (utf16 ''lo '')\<rparr>,
            no_content\<lparr>outputTranscription := Some (utf16 ''Hi'')\<rparr>,
            no_content\<lparr>outputTranscription := Some (utf16 '' there'')\<rparr>,
            no_content\<lparr>turnComplete := True\<rparr>,
            no_content\<lparr>turnComplete := True\<rparr>]))
     = turns (effects s) @ [(utf16 ''Hello'', utf16 ''Hi there''), ([], [])]"
proof -
  have a: "handle_transcription p (m\<lparr>outputTranscription := Some txt\<rparr>) s
     = s\<lparr>currentOutputTranscription := currentOutputTranscription s @ txt\<rparr>"
    by (simp add: handle_transcription_def)
  have b: "currentInputTranscription
       (handle_transcription p (m\<lparr>outputTranscription := None, inputTranscription := Some txt\<rparr>) s)
     = currentInputTranscription s @ txt"
    by (simp add: handle_transcription_def emit_def Let_def)
  have c: "handle_turnComplete (m\<lparr>turnComplete := True\<rparr>) s
     = (emit [OnTurnComplete (trim (currentInputTranscription s))
                             (trim (currentOutputTranscription s))] s)
         \<lparr>currentInputTranscription := [], currentOutputTranscription := []\<rparr>"
    by (simp add: handle_turnComplete_def)
  have d: "turns (effects
        (foldl (\<lambda>s' m'. onmessage p m' t s')
           (s\<lparr>currentInputTranscription := [], currentOutputTranscription := []\<rparr>)
           [no_content\<lparr>inputTranscription := Some (utf16 ''Hel'')\<rparr>,
            no_content\<lparr>inputTranscription := Some (utf16 ''lo '')\<rparr>,
            no_content\<lparr>outputTranscription := Some (utf16 ''Hi'')\<rparr>,
            no_content\<lparr>outputTranscription := Some (utf16 '' there'')\<rparr>,
            no_content\<lparr>turnComplete := True\<rparr>,
            no_content\<lparr>turnComplete := True\<rparr>]))
     = turns (effects s) @ [(utf16 ''Hello'', utf16 ''Hi there''), ([], [])]"
    by (simp add: turn_complete_signal output_fragment input_fragment trim_examples)
  from a b c d show ?thesis by (intro conjI)
qed

section \<open>Turn completion on empty buffers\<close>

lemma turns_SourceStop: "turns (map SourceStop ns) = []"
  by (induction ns) simp_all

lemma onmessage_turns:
  "turns (effects (onmessage p m t s))
     = turns (effects (handle_turnComplete m (handle_transcription p m s)))
   \<and> currentInputTranscription (onmessage p m t s)
     = currentInputTranscription (handle_turnComplete m (handle_transcription p m s))
   \<and> currentOutputTranscription (onmessage p m t s)
     = currentOutputTranscription (handle_turnComplete m (handle_transcription p m s))"
  by (simp add: onmessage_def handle_audio_playback_def handle_interruptions_def emit_def
        Let_def turns_append turns_SourceStop split: option.split sum.split)

text \<open>
  Claim C6, as the code has it. A turn-complete signal that finds both strings empty (and
  brings no fragment itself) still calls the turn-complete observer, with two empty strings;
  the strings stay empty. The hook does not leave the empty turn out.
\<close>

theorem empty_turn_is_emitted:
  assumes "turnComplete m" and "outputTranscription m = None" and "inputTranscription m = None"
    and "currentInputTranscription s = []" and "currentOutputTranscription s = []"
  shows "turns (effects (onmessage p m t s)) = turns (effects s) @ [([], [])]
     \<and> currentInputTranscription (onmessage p m t s) = []
     \<and> currentOutputTranscription (onmessage p m t s) = []"
  using assms
  by (simp add: onmessage_turns handle_turnComplete_def handle_transcription_def emit_def
        turns_append trim_def)

theorem empty_turn_is_emitted_witness:
  "turnComplete (no_content\<lparr>turnComplete := True\<rparr>)
   \<and> outputTranscription (no_content\<lparr>turnComplete := True\<rparr>) = None
   \<and> inputTranscription (no_content\<lparr>turnComplete := True\<rparr>) = None
   \<and> currentInputTranscription (mount sample_params False) = []
   \<and> currentOutputTranscription (mount sample_params False) = []
   \<and> turns (effects (onmessage sample_params (no_content\<lparr>turnComplete := True\<rparr>) 0
                        (mount sample_params False))) = [([], [])]"
  using empty_turn_is_emitted [of "no_content\<lparr>turnComplete := True\<rparr>"
      "mount sample_params False" sample_params 0]
  by (simp add: no_content_def mount_def)

text \<open>
  Claim C6 as stated fails on a fresh connection: the first message is a turn-complete
  signal, both strings are empty, and the observer is called.
\<close>

theorem turn_complete_on_empty_buffers_calls_back:
  "map_option effects
     (run sample_params [StartSession, Open 0, Message 0 (no_content\<lparr>turnComplete := True\<rparr>) 0]
        (mount sample_params False))
     = Some [LiveConnect 0, OnTurnComplete [] [] ]"
  by (simp add: hook_defs mount_def sample_params_def utf16_def no_content_def trim_def)


section \<open>Input fragments\<close>

text \<open>
  Claim C7, as the code has it. A message that carries an input-transcription fragment and no
  output-transcription fragment appends the fragment to the user string and hands it to the
  live-transcript observer (when the caller supplied one) in the same step, before any turn
  completion is handled. In a message that also carries an output-transcription fragment
  only the output branch runs: the assistant string grows, the user string and the effects
  are as before.
\<close>

theorem input_fragment_routing:
  assumes "inputTranscription m = Some txt"
  shows "(outputTranscription m = None \<longrightarrow>
            currentInputTranscription (handle_transcription p m s)
              = currentInputTranscription s @ txt
          \<and> currentOutputTranscription (handle_transcription p m s)
              = currentOutputTranscription s
          \<and> effects (handle_transcription p m s)
              = effects s @ (if onLiveTranscript p then [OnLiveTranscript txt] else []))
     \<and> (\<forall>out. outputTranscription m = Some out \<longrightarrow>
            handle_transcription p m s
              = s\<lparr>currentOutputTranscription := currentOutputTranscription s @ out\<rparr>)"
  using assms by (simp add: handle_transcription_def emit_def Let_def)

theorem input_fragment_routing_witness:
  "inputTranscription (no_content\<lparr>inputTranscription := Some (utf16 ''Hel'')\<rparr>)
     = Some (utf16 ''Hel'')
   \<and> outputTranscription (no_content\<lparr>inputTranscription := Some (utf16 ''Hel'')\<rparr>) = None
   \<and> currentInputTranscription
       (handle_transcription sample_params
          (no_content\<lparr>inputTranscription := Some (utf16 ''Hel'')\<rparr>) (mount sample_params False))
     = utf16 ''Hel''
   \<and> effects
       (handle_transcription sample_params
          (no_content\<lparr>inputTranscription := Some (utf16 ''Hel'')\<rparr>) (mount sample_params False))
     = [OnLiveTranscript (utf16 ''Hel'')]"
  using input_fragment_routing [of "no_content\<lparr>inputTranscription := Some (utf16 ''Hel'')\<rparr>"
      "utf16 ''Hel''" sample_params "mount sample_params False"]
  by (simp add: no_content_def sample_params_def mount_def)

text \<open>
  Claim C7 as stated fails for a message with both fragments: the user string stays empty
  and the live-transcript observer is not called.
\<close>

theorem input_fragment_beside_output_is_dropped:
  "map_option (\<lambda>s. (currentInputTranscription s, currentOutputTranscription s, effects s))
     (run sample_params
        [StartSession, Open 0,
         Message 0 (no_content\<lparr>outputTranscription := Some (utf16 ''Hi''),
                               inputTranscription := Some (utf16 ''Hel'')\<rparr>) 0]
        (mount sample_params False))
     = Some ([], utf16 ''Hi'', [LiveConnect 0])"
  by (simp add: hook_defs mount_def sample_params_def utf16_def no_content_def)

section \<open>Stopping\<close>

lemma quiet_mount: "quiet_when_idle (mount p cached)"
  by (simp add: quiet_when_idle_def mount_def)

lemma quiet_step:
  assumes "consistent s" and "quiet_when_idle s" and "step p e s = Some s'"
  shows "quiet_when_idle s'"
proof (cases e)
  case StartSession
  show ?thesis
  proof (cases "sessionPromiseRef s = None")
    case True
    then have "connectionState (startSession p s) \<noteq> idle"
      by (auto simp: startSession_def getAiInstance_def API_KEY_def emit_def Let_def
               split: option.splits process_global.splits)
    with StartSession assms(3) show ?thesis by (auto simp: quiet_when_idle_def)
  next
    case False
    with StartSession assms(2,3) show ?thesis by (simp add: startSession_held)
  qed
next
  case StopSession
  with assms(3) show ?thesis
    by (auto simp: quiet_when_idle_def stopSession_def emit_def Let_def split: option.splits)
next
  case (SendAudioData d)
  have "connectionState (sendAudioData p d s) = connectionState s
     \<and> sessionPromiseRef (sendAudioData p d s) = sessionPromiseRef s
     \<and> sources (sendAudioData p d s) = sources s
     \<and> nextStartTime (sendAudioData p d s) = nextStartTime s"
    by (simp add: sendAudioData_def emit_def Let_def split: option.split)
  with SendAudioData assms(2,3) show ?thesis by (auto simp: quiet_when_idle_def)
next
  case Render
  with assms(2,3) show ?thesis by (auto simp: quiet_when_idle_def render_def)
next
  case (Open c)
  with assms(3) show ?thesis by (auto simp: quiet_when_idle_def onopen_def split: if_splits)
next
  case (Message c m t)
  with assms(3) have "c \<in> set (connections s)" and s': "s' = onmessage p m t s"
    by (auto split: if_splits)
  with assms(1) have "sessionPromiseRef s \<noteq> None"
    by (auto simp: consistent_def split: option.splits)
  then have "sessionPromiseRef s' \<noteq> None" using s' by (simp add: onmessage_connection)
  then show ?thesis by (auto simp: quiet_when_idle_def)
next
  case (Failure c e)
  with assms(3) show ?thesis
    by (auto simp: quiet_when_idle_def onerror_def emit_def Let_def split: if_splits)
next
  case (Close c)
  with assms(3) show ?thesis by (auto simp: quiet_when_idle_def onclose_def split: if_splits)
next
  case (Ended n)
  with assms(2,3) show ?thesis
    by (auto simp: quiet_when_idle_def ended_def emit_def Let_def split: if_splits)
qed

lemma quiet_run:
  "consistent s \<Longrightarrow> quiet_when_idle s \<Longrightarrow> run p evs s = Some s' \<Longrightarrow> quiet_when_idle s'"
proof (induction evs arbitrary: s)
  case Nil
  then show ?case by simp
next
  case (Cons e evs)
  from Cons.prems(3) obtain s1 where s1: "step p e s = Some s1" and r: "run p evs s1 = Some s'"
    by (auto split: option.splits)
  from Cons.prems(1) s1 have c: "consistent s1" by (rule consistent_step)
  from Cons.prems(1,2) s1 have q: "quiet_when_idle s1" by (rule quiet_step)
  from c q r show ?case by (rule Cons.IH)
qed

text \<open>
  Claim C8, as the code has it. \<^verbatim>\<open>stopSession\<close> can be called in every state and returns a
  state (no path of it throws). It asks the held connection, if any, to close, stops every
  active source and empties the active set, sets \<open>nextStartTime\<close> to zero, tells the
  speaking observer \<open>False\<close> and sets the state to \<open>idle\<close>. It leaves the promise in the
  ref and the connection with the transport: the state \<open>disconnected\<close> and the cleared ref
  come with the close acknowledgment. In the state \<open>idle\<close> it does all of this again: the
  state stays \<open>idle\<close>, the speaking observer is told \<open>False\<close>, and a promise still held is
  asked to close once more. In every state \<open>idle\<close> that a run reaches with no promise held,
  the call of the speaking observer is all it does.
\<close>

theorem stopSession_teardown:
  "step p StopSession s = Some (stopSession p s)
   \<and> connectionState (stopSession p s) = idle
   \<and> sessionPromiseRef (stopSession p s) = sessionPromiseRef s
   \<and> connections (stopSession p s) = connections s
   \<and> sources (stopSession p s) = []
   \<and> nextStartTime (stopSession p s) = 0
   \<and> effects (stopSession p s)
       = effects s @ (case sessionPromiseRef s of Some c \<Rightarrow> [SessionClose c] | None \<Rightarrow> [])
           @ map SourceStop (sources s) @ [OnAssistantSpeakingStateChange False]
   \<and> connectionState (onclose (stopSession p s)) = disconnected
   \<and> sessionPromiseRef (onclose (stopSession p s)) = None
   \<and> (run p evs (mount p cached) = Some r \<and> connectionState r = idle
        \<and> sessionPromiseRef r = None
        \<longrightarrow> stopSession p r = emit [OnAssistantSpeakingStateChange False] r)"
proof -
  have general: "step p StopSession s = Some (stopSession p s)
   \<and> connectionState (stopSession p s) = idle
   \<and> sessionPromiseRef (stopSession p s) = sessionPromiseRef s
   \<and> connections (stopSession p s) = connections s
   \<and> sources (stopSession p s) = []
   \<and> nextStartTime (stopSession p s) = 0
   \<and> effects (stopSession p s)
       = effects s @ (case sessionPromiseRef s of Some c \<Rightarrow> [SessionClose c] | None \<Rightarrow> [])
           @ map SourceStop (sources s) @ [OnAssistantSpeakingStateChange False]
   \<and> connectionState (onclose (stopSession p s)) = disconnected
   \<and> sessionPromiseRef (onclose (stopSession p s)) = None"
    by (simp add: stopSession_def emit_def onclose_def Let_def split: option.split)
  have reached: "run p evs (mount p cached) = Some r \<and> connectionState r = idle
        \<and> sessionPromiseRef r = None
        \<longrightarrow> stopSession p r = emit [OnAssistantSpeakingStateChange False] r"
  proof (intro impI)
    assume h: "run p evs (mount p cached) = Some r \<and> connectionState r = idle
        \<and> sessionPromiseRef r = None"
    then have "quiet_when_idle r"
      using quiet_run [OF consistent_mount quiet_mount] by blast
    with h have "sources r = []" and "nextStartTime r = 0"
      by (simp_all add: quiet_when_idle_def)
    with h show "stopSession p r = emit [OnAssistantSpeakingStateChange False] r"
      by (simp add: stopSession_def emit_def Let_def)
  qed
  from general reached show ?thesis by simp
qed

theorem stopSession_teardown_witness:
  "map_option
     (\<lambda>r. (connectionState r, sessionPromiseRef r,
            stopSession sample_params r = emit [OnAssistantSpeakingStateChange False] r))
     (run sample_params [StartSession, Open 0, StopSession, Close 0, StopSession]
        (mount sample_params False))
     = Some (idle, None, True)
   \<and> map_option (\<lambda>s. (connectionState s, sources s, nextStartTime s, effects s))
       (run sample_params
          [StartSession, Open 0, Message 0 (no_content\<lparr>inlineData := Some [0, 64]\<rparr>) 0,
           StopSession] (mount sample_params False))
       = Some (idle, [], 0,
           [LiveConnect 0, OnAssistantSpeakingStateChange True, SourceStart 0 0 (1 / 24000),
            SessionClose 0, SourceStop 0, OnAssistantSpeakingStateChange False])"
  using stopSession_teardown [of sample_params "mount sample_params False"
      "[StartSession, Open 0, StopSession, Close 0, StopSession]" False
      "the (run sample_params [StartSession, Open 0, StopSession, Close 0, StopSession]
              (mount sample_params False))"]
  by (simp add: hook_defs mount_def sample_params_def utf16_def no_content_def
        decodeAudioData_def duration_def)

text \<open>
  Claim C8 as stated fails in the state \<open>idle\<close> that \<^verbatim>\<open>stopSession\<close> itself leaves while
  the close acknowledgment is outstanding: a second \<^verbatim>\<open>stopSession\<close> there asks the
  connection to close again and tells the speaking observer \<open>False\<close> again, so it is not
  a no-op.
\<close>

theorem second_stop_requests_close_again:
  "map_option (\<lambda>s. (connectionState s, sessionPromiseRef s))
     (run sample_params [StartSession, StopSession] (mount sample_params False))
       = Some (idle, Some 0)
   \<and> map_option effects
     (run sample_params [StartSession, StopSession] (mount sample_params False))
       = Some [LiveConnect 0, SessionClose 0, OnAssistantSpeakingStateChange False]
   \<and> map_option effects
     (run sample_params [StartSession, StopSession, StopSession] (mount sample_params False))
       = Some [LiveConnect 0, SessionClose 0, OnAssistantSpeakingStateChange False,
               SessionClose 0, OnAssistantSpeakingStateChange False]"
  by (simp add: hook_defs mount_def sample_params_def utf16_def)

section \<open>Credential errors\<close>

lemma str_includes_nonempty: "str_includes msg sub \<Longrightarrow> sub \<noteq> [] \<Longrightarrow> msg \<noteq> []"
  by (cases msg) simp_all

text \<open>
  Claim C9. An error event whose message contains "Requested entity was not found." sets the
  state to \<open>error\<close>, as every error event does, and in addition calls the credential-error
  observer (when the caller supplied one).
\<close>

theorem credential_error_routing:
  assumes "str_includes (message e) entity_not_found"
  shows "connectionState (onerror p e s) = error
     \<and> effects (onerror p e s) = effects s @ (if onApiKeyError p then [OnApiKeyError] else [])
     \<and> connectionState (onerror p e' s) = error"
proof -
  have "entity_not_found \<noteq> []" by (simp add: entity_not_found_def utf16_def)
  with assms have "message e \<noteq> []" by (rule str_includes_nonempty)
  with assms show ?thesis by (simp add: onerror_def emit_def Let_def)
qed

theorem credential_error_routing_witness:
  "str_includes (message (ErrorEvent (utf16 ''Error: Requested entity was not found. (404)'')))
      entity_not_found
   \<and> map_option (\<lambda>s. (connectionState s, effects s))
       (run sample_params
          [StartSession, Open 0,
           Failure 0 (ErrorEvent (utf16 ''Error: Requested entity was not found. (404)''))]
          (mount sample_params False))
     = Some (error, [LiveConnect 0, OnApiKeyError])"
  using credential_error_routing
    [of "ErrorEvent (utf16 ''Error: Requested entity was not found. (404)'')" sample_params
        "mount sample_params False"]
  by (simp add: hook_defs mount_def sample_params_def utf16_def entity_not_found_def)

lemma API_KEY_message_includes: "str_includes API_KEY_message (utf16 ''API_KEY'')"
  by (simp add: API_KEY_message_def utf16_def)

text \<open>
  Claim C10. Whatever \<^verbatim>\<open>getAiInstance\<close> throws inside \<^verbatim>\<open>startSession\<close> -- the error
  about \<^verbatim>\<open>API_KEY\<close> when no key is configured, or the ReferenceError where \<^verbatim>\<open>process\<close>
  is not defined -- \<^verbatim>\<open>startSession\<close> still returns: it leaves the state \<open>error\<close>, opens
  no connection, holds no promise, and calls the credential-error observer exactly when the
  message of what was thrown contains "API_KEY" (and the caller supplied the observer).
  Where \<^verbatim>\<open>process\<close> is defined, what is thrown is the error for a missing or empty key,
  whose message contains it.
\<close>

theorem start_failure_is_caught:
  assumes "sessionPromiseRef s = None" and "getAiInstance p s = Inl e"
  shows "step p StartSession s = Some (startSession p s)
     \<and> connectionState (startSession p s) = error
     \<and> sessionPromiseRef (startSession p s) = None
     \<and> connections (startSession p s) = connections s
     \<and> effects (startSession p s)
         = effects s @ (if str_includes (exn_message e) (utf16 ''API_KEY'') \<and> onApiKeyError p
                        then [OnApiKeyError] else [])
     \<and> ((\<forall>msg. process p \<noteq> process_undefined msg)
          \<longrightarrow> e = Error API_KEY_message
            \<and> effects (startSession p s)
                = effects s @ (if onApiKeyError p then [OnApiKeyError] else []))
     \<and> (\<forall>msg. process p = process_undefined msg \<longrightarrow> e = ReferenceError msg)"
proof -
  let ?s1 = "s\<lparr>connectionState := connecting,
               currentInputTranscription := [], currentOutputTranscription := []\<rparr>"
  have thrown: "getAiInstance p ?s1 = Inl e"
    using assms(2)
    by (auto simp: getAiInstance_def API_KEY_def split: if_splits process_global.splits
          option.splits)
  have main: "step p StartSession s = Some (startSession p s)
     \<and> connectionState (startSession p s) = error
     \<and> sessionPromiseRef (startSession p s) = None
     \<and> connections (startSession p s) = connections s
     \<and> effects (startSession p s)
         = effects s @ (if str_includes (exn_message e) (utf16 ''API_KEY'') \<and> onApiKeyError p
                        then [OnApiKeyError] else [])"
    using assms(1) thrown by (simp add: startSession_def emit_def Let_def)
  have key: "(\<forall>msg. process p \<noteq> process_undefined msg) \<longrightarrow> e = Error API_KEY_message"
    using assms(2)
    by (auto simp: getAiInstance_def API_KEY_def split: if_splits process_global.splits
          option.splits)
  have ref: "\<forall>msg. process p = process_undefined msg \<longrightarrow> e = ReferenceError msg"
    using assms(2)
    by (auto simp: getAiInstance_def API_KEY_def split: if_splits process_global.splits
          option.splits)
  have eff: "(\<forall>msg. process p \<noteq> process_undefined msg)
          \<longrightarrow> effects (startSession p s)
                = effects s @ (if onApiKeyError p then [OnApiKeyError] else [])"
  proof (intro impI)
    assume "\<forall>msg. process p \<noteq> process_undefined msg"
    with key have "exn_message e = API_KEY_message" by simp
    with main API_KEY_message_includes
    show "effects (startSession p s)
                = effects s @ (if onApiKeyError p then [OnApiKeyError] else [])"
      by simp
  qed
  from main key eff ref show ?thesis by (intro conjI impI allI) simp_all
qed


theorem start_failure_is_caught_witness:
  "sessionPromiseRef (mount (sample_params\<lparr>process := process_env None\<rparr>) False) = None
   \<and> getAiInstance (sample_params\<lparr>process := process_env None\<rparr>)
         (mount (sample_params\<lparr>process := process_env None\<rparr>) False)
       = Inl (Error API_KEY_message)
   \<and> connectionState (startSession (sample_params\<lparr>process := process_env None\<rparr>)
         (mount (sample_params\<lparr>process := process_env None\<rparr>) False)) = error
   \<and> effects (startSession (sample_params\<lparr>process := process_env None\<rparr>)
         (mount (sample_params\<lparr>process := process_env None\<rparr>) False)) = [OnApiKeyError]
   \<and> getAiInstance (sample_params\<lparr>process := process_undefined (utf16 ''process is not defined'')\<rparr>)
         (mount (sample_params\<lparr>process := process_undefined (utf16 ''process is not defined'')\<rparr>)
            False)
       = Inl (ReferenceError (utf16 ''process is not defined''))
   \<and> connectionState
         (startSession (sample_params\<lparr>process := process_undefined (utf16 ''process is not defined'')\<rparr>)
           (mount (sample_params\<lparr>process := process_undefined (utf16 ''process is not defined'')\<rparr>)
              False)) = error
   \<and> effects
         (startSession (sample_params\<lparr>process := process_undefined (utf16 ''process is not defined'')\<rparr>)
           (mount (sample_params\<lparr>process := process_undefined (utf16 ''process is not defined'')\<rparr>)
              False)) = []"
proof -
  let ?p1 = "sample_params\<lparr>process := process_env None\<rparr>"
  let ?p2 = "sample_params\<lparr>process := process_undefined (utf16 ''process is not defined'')\<rparr>"
  have n1: "sessionPromiseRef (mount ?p1 False) = None"
    and n2: "sessionPromiseRef (mount ?p2 False) = None"
    by (simp_all add: mount_def)
  have g1: "getAiInstance ?p1 (mount ?p1 False) = Inl (Error API_KEY_message)"
    by (simp add: getAiInstance_def API_KEY_def mount_def)
  have g2: "getAiInstance ?p2 (mount ?p2 False)
              = Inl (ReferenceError (utf16 ''process is not defined''))"
    by (simp add: getAiInstance_def mount_def)
  have no: "\<not> str_includes (utf16 ''process is not defined'') (utf16 ''API_KEY'')"
    by (simp add: utf16_def)
  have e1: "effects (mount ?p1 False) = []" and e2: "effects (mount ?p2 False) = []"
    by (simp_all add: mount_def)
  have o1: "onApiKeyError ?p1" by (simp add: sample_params_def)
  from start_failure_is_caught [OF n1 g1] API_KEY_message_includes e1 o1
  have r1: "connectionState (startSession ?p1 (mount ?p1 False)) = error
      \<and> effects (startSession ?p1 (mount ?p1 False)) = [OnApiKeyError]"
    by simp
  from start_failure_is_caught [OF n2 g2] no e2
  have r2: "connectionState (startSession ?p2 (mount ?p2 False)) = error
      \<and> effects (startSession ?p2 (mount ?p2 False)) = []"
    by simp
  from n1 g1 r1 g2 r2 show ?thesis by (intro conjI) simp_all
qed

end
